theory Spec2Isabelle
  imports Complex_Main "HOL-Library.AList"
begin

section \<open>GameStateManager: the state tree\<close>

text \<open>
  The class \<^verbatim>\<open>GameStateManager\<close> of \<^verbatim>\<open>src/utils/GameStateManager.js\<close> owns one
  mutable tree, \<^verbatim>\<open>this.state\<close>. The tree is modelled as nested records whose fields
  have the types that \<^verbatim>\<open>getInitialState\<close> gives them. JavaScript numbers that count
  or score are \<open>int\<close>, volumes are \<open>real\<close>. A top-level key that the class adds
  only later (\<^verbatim>\<open>unlockedContent\<close>, \<^verbatim>\<open>unlockedEndings\<close>, a character's
  \<^verbatim>\<open>totalScore\<close>) is an \<open>option\<close>, \<open>None\<close> standing for \<^verbatim>\<open>undefined\<close>.
  Objects used as dictionaries (\<^verbatim>\<open>flags\<close>, unknown top-level keys) are maps;
  \<^verbatim>\<open>characters\<close>, which the code iterates with \<^verbatim>\<open>Object.values\<close>, is an
  association list in key order. Unlocked items and flag values are JSON values; the
  code compares items with \<^verbatim>\<open>includes\<close>, which on the strings and numbers it is given
  is equality. The Japanese display names of the source are transliterated. Read-only
  accessors that no statement below needs (\<^verbatim>\<open>getDebugInfo\<close>, \<^verbatim>\<open>getGameStats\<close>,
  \<^verbatim>\<open>getCharacterStats\<close>, \<^verbatim>\<open>isDialogueRead\<close>) are left out.
\<close>

datatype jsval =
    JNull
  | JBool bool
  | JNum real
  | JStr string
  | JArr "jsval list"
  | JObj "(string \<times> jsval) list"

record equipment =
  eq_level :: int
  eq_name :: string

record character =
  c_name :: string
  c_level :: int
  hp :: int
  maxHp :: int
  intimacy :: int
  battleCount :: int
  victories :: int
  equipment :: equipment
  c_totalScore :: "int option"

record statistics =
  gamesPlayed :: int
  gamesWon :: int
  totalTilesCleared :: int
  maxCombo :: int
  perfectGames :: int

record player =
  p_name :: string
  p_level :: int
  totalScore :: int
  totalPlayTime :: int
  achievements :: "jsval list"
  statistics :: statistics

record settings =
  bgmVolume :: real
  seVolume :: real
  voiceVolume :: real
  textSpeed :: real
  autoMode :: bool
  fullscreen :: bool
  language :: string

text \<open>
  \<^verbatim>\<open>unlocks\<close> has five categories from the start and
  \<^verbatim>\<open>unlock(category, item)\<close> may create more under any name.
\<close>

record unlocks =
  u_characters :: "jsval list"
  u_scenes :: "jsval list"
  u_endings :: "jsval list"
  u_gallery :: "jsval list"
  u_achievements :: "jsval list"
  u_others :: "string \<rightharpoonup> jsval list"

record state =
  version :: string
  playerId :: string
  createdAt :: int
  lastPlayedAt :: int
  currentScene :: string
  currentCharacter :: jsval
  currentDialogue :: int
  completedScenes :: "string list"
  characters :: "(nat \<times> character) list"
  player :: player
  settings :: settings
  unlocks :: unlocks
  currentGame :: jsval
  flags :: "string \<rightharpoonup> jsval"
  hasUnsavedProgress :: bool
  unlockedContent :: "jsval list option"
  unlockedEndings :: "jsval list option"
  extras :: "string \<rightharpoonup> jsval"

text \<open>
  The host's answers during one synchronous call: the reading of \<^verbatim>\<open>Date.now()\<close> and
  the string that \<^verbatim>\<open>generatePlayerId()\<close> builds from \<^verbatim>\<open>Math.random()\<close>.
\<close>

record env =
  now :: int
  generatePlayerId :: string

definition getInitialState :: "env \<Rightarrow> state" where
  "getInitialState e =
     \<lparr> version = ''1.0.0'',
       playerId = generatePlayerId e,
       createdAt = now e,
       lastPlayedAt = now e,
       currentScene = ''title'',
       currentCharacter = JNull,
       currentDialogue = 0,
       completedScenes = [],
       characters =
         [ (1, \<lparr> c_name = ''Amano Misaki'', c_level = 1, hp = 100, maxHp = 100,
                 intimacy = 0, battleCount = 0, victories = 0,
                 equipment = \<lparr> eq_level = 1, eq_name = ''kiso soubi'' \<rparr>,
                 c_totalScore = None \<rparr>),
           (2, \<lparr> c_name = ''Himuro Reina'', c_level = 1, hp = 120, maxHp = 120,
                 intimacy = 0, battleCount = 0, victories = 0,
                 equipment = \<lparr> eq_level = 1, eq_name = ''seifuku'' \<rparr>,
                 c_totalScore = None \<rparr>),
           (3, \<lparr> c_name = ''Akatsuki You'', c_level = 1, hp = 150, maxHp = 150,
                 intimacy = 0, battleCount = 0, victories = 0,
                 equipment = \<lparr> eq_level = 1, eq_name = ''seitokai fuku'' \<rparr>,
                 c_totalScore = None \<rparr>) ],
       player =
         \<lparr> p_name = ''shujinkou'', p_level = 1, totalScore = 0, totalPlayTime = 0,
           achievements = [],
           statistics = \<lparr> gamesPlayed = 0, gamesWon = 0, totalTilesCleared = 0,
                          maxCombo = 0, perfectGames = 0 \<rparr> \<rparr>,
       settings =
         \<lparr> bgmVolume = 7 / 10, seVolume = 8 / 10, voiceVolume = 8 / 10, textSpeed = 1,
           autoMode = False, fullscreen = False, language = ''ja'' \<rparr>,
       unlocks =
         \<lparr> u_characters = [JNum 1],
           u_scenes = [JStr ''title'', JStr ''scene_1''],
           u_endings = [],
           u_gallery = [],
           u_achievements = [],
           u_others = Map.empty \<rparr>,
       currentGame = JNull,
       flags = Map.empty,
       hasUnsavedProgress = False,
       unlockedContent = None,
       unlockedEndings = None,
       extras = Map.empty \<rparr>"


section \<open>Snapshots, events, diagnostics\<close>

text \<open>
  What \<^verbatim>\<open>loadState\<close> receives is what \<^verbatim>\<open>JSON.parse\<close> returned, or nothing at all:
  \<^verbatim>\<open>undefined\<close>, \<^verbatim>\<open>null\<close>, a boolean, a number, a string, an array, or an object.
  An object snapshot has any subset of the tree's top-level keys, each holding a value
  of the type the tree holds there, and further unknown keys.
\<close>

record snapshot_obj =
  s_version :: "string option"
  s_playerId :: "string option"
  s_createdAt :: "int option"
  s_lastPlayedAt :: "int option"
  s_currentScene :: "string option"
  s_currentCharacter :: "jsval option"
  s_currentDialogue :: "int option"
  s_completedScenes :: "string list option"
  s_characters :: "(nat \<times> character) list option"
  s_player :: "player option"
  s_settings :: "settings option"
  s_unlocks :: "unlocks option"
  s_currentGame :: "jsval option"
  s_flags :: "(string \<rightharpoonup> jsval) option"
  s_hasUnsavedProgress :: "bool option"
  s_unlockedContent :: "jsval list option"
  s_unlockedEndings :: "jsval list option"
  s_extras :: "string \<rightharpoonup> jsval"

datatype snapshot =
    SUndefined
  | SNull
  | SBool bool
  | SNum real
  | SStr string
  | SArr "jsval list"
  | SObj snapshot_obj

datatype error = TypeError

record gameData =
  tilesCleared :: "int option"
  combo :: "int option"
  perfect :: bool

text \<open>The calls of \<^verbatim>\<open>this.emit(name, payload)\<close>, one constructor for each event name.\<close>

datatype event =
    StateLoaded state
  | SceneChanged string string jsval
  | CharacterUpdated nat character character
  | EquipmentUpgraded nat int int string
  | ScoreUpdated int int
  | VictoryRecorded nat gameData
  | DefeatRecorded nat
  | IntimacyChanged nat int int
  | FlagChanged string "jsval option" jsval
  | Unlocked string jsval
  | SettingsChanged settings
  | GameReset

text \<open>The calls of \<^verbatim>\<open>console.log\<close>, \<^verbatim>\<open>console.warn\<close> and \<^verbatim>\<open>console.error\<close>.\<close>

datatype level = ConsoleLog | ConsoleWarn | ConsoleError

datatype message =
    Msg_version_mismatch
  | Msg_migrating
  | Msg_state_loaded
  | Msg_load_failed error
  | Msg_scene_changed string string
  | Msg_character_not_found nat
  | Msg_equipment_upgraded string int int
  | Msg_unlocked string jsval
  | Msg_game_reset

text \<open>
  The manager: the tree, \<^verbatim>\<open>lastSaveTime\<close>, and the two traces that make its effects
  on the outside visible: the events handed to \<^verbatim>\<open>emit\<close> and the console lines, both
  in the order of the calls. The subscribers themselves are external to the class.
\<close>

record manager =
  state :: state
  lastSaveTime :: int
  emitted :: "event list"
  console :: "(level \<times> message) list"

definition constructor :: "env \<Rightarrow> manager" where
  "constructor e =
     \<lparr> state = getInitialState e, lastSaveTime = 0, emitted = [], console = [] \<rparr>"

definition emit :: "event \<Rightarrow> manager \<Rightarrow> manager" where
  "emit ev m = m\<lparr>emitted := emitted m @ [ev]\<rparr>"

definition console_out :: "level \<Rightarrow> message \<Rightarrow> manager \<Rightarrow> manager" where
  "console_out l msg m = m\<lparr>console := console m @ [(l, msg)]\<rparr>"

definition markUnsaved :: "env \<Rightarrow> manager \<Rightarrow> manager" where
  "markUnsaved e m =
     m\<lparr>state := (state m)\<lparr>hasUnsavedProgress := True, lastPlayedAt := now e\<rparr>\<rparr>"

definition markSaved :: "env \<Rightarrow> manager \<Rightarrow> manager" where
  "markSaved e m =
     m\<lparr>state := (state m)\<lparr>hasUnsavedProgress := False\<rparr>, lastSaveTime := now e\<rparr>"

text \<open>JavaScript's \<^verbatim>\<open>x || d\<close> on a number and on a possibly missing number.\<close>

definition or_num :: "int \<Rightarrow> int \<Rightarrow> int" where
  "or_num x d = (if x = 0 then d else x)"

definition or_undef :: "int option \<Rightarrow> int \<Rightarrow> int" where
  "or_undef x d = (case x of None \<Rightarrow> d | Some v \<Rightarrow> or_num v d)"

section \<open>Persistence\<close>

text \<open>
  The object spread \<^verbatim>\<open>{ ...a, ...b }\<close> with a tree \<open>a\<close> and a snapshot object
  \<open>b\<close>: every key of \<open>b\<close> wins, every other key keeps the value of \<open>a\<close>.
\<close>

definition pick :: "'a option \<Rightarrow> 'a \<Rightarrow> 'a" where
  "pick x d = (case x of None \<Rightarrow> d | Some v \<Rightarrow> v)"

definition pick_opt :: "'a option \<Rightarrow> 'a option \<Rightarrow> 'a option" where
  "pick_opt x d = (case x of None \<Rightarrow> d | Some v \<Rightarrow> Some v)"

definition spread :: "state \<Rightarrow> snapshot_obj \<Rightarrow> state" where
  "spread a b =
     \<lparr> version = pick (s_version b) (version a),
       playerId = pick (s_playerId b) (playerId a),
       createdAt = pick (s_createdAt b) (createdAt a),
       lastPlayedAt = pick (s_lastPlayedAt b) (lastPlayedAt a),
       currentScene = pick (s_currentScene b) (currentScene a),
       currentCharacter = pick (s_currentCharacter b) (currentCharacter a),
       currentDialogue = pick (s_currentDialogue b) (currentDialogue a),
       completedScenes = pick (s_completedScenes b) (completedScenes a),
       characters = pick (s_characters b) (characters a),
       player = pick (s_player b) (player a),
       settings = pick (s_settings b) (settings a),
       unlocks = pick (s_unlocks b) (unlocks a),
       currentGame = pick (s_currentGame b) (currentGame a),
       flags = pick (s_flags b) (flags a),
       hasUnsavedProgress = pick (s_hasUnsavedProgress b) (hasUnsavedProgress a),
       unlockedContent = pick_opt (s_unlockedContent b) (unlockedContent a),
       unlockedEndings = pick_opt (s_unlockedEndings b) (unlockedEndings a),
       extras = extras a ++ s_extras b \<rparr>"

text \<open>A tree seen as an object: every key it has, with its value.\<close>

definition snapshot_of :: "state \<Rightarrow> snapshot_obj" where
  "snapshot_of a =
     \<lparr> s_version = Some (version a),
       s_playerId = Some (playerId a),
       s_createdAt = Some (createdAt a),
       s_lastPlayedAt = Some (lastPlayedAt a),
       s_currentScene = Some (currentScene a),
       s_currentCharacter = Some (currentCharacter a),
       s_currentDialogue = Some (currentDialogue a),
       s_completedScenes = Some (completedScenes a),
       s_characters = Some (characters a),
       s_player = Some (player a),
       s_settings = Some (settings a),
       s_unlocks = Some (unlocks a),
       s_currentGame = Some (currentGame a),
       s_flags = Some (flags a),
       s_hasUnsavedProgress = Some (hasUnsavedProgress a),
       s_unlockedContent = unlockedContent a,
       s_unlockedEndings = unlockedEndings a,
       s_extras = extras a \<rparr>"

definition empty_obj :: snapshot_obj where
  "empty_obj =
     \<lparr> s_version = None, s_playerId = None, s_createdAt = None, s_lastPlayedAt = None,
       s_currentScene = None, s_currentCharacter = None, s_currentDialogue = None,
       s_completedScenes = None, s_characters = None, s_player = None,
       s_settings = None, s_unlocks = None, s_currentGame = None, s_flags = None,
       s_hasUnsavedProgress = None, s_unlockedContent = None, s_unlockedEndings = None,
       s_extras = Map.empty \<rparr>"

text \<open>
  The own enumerable properties that a spread copies: those of an object; the elements
  of an array and the characters of a string under their indices, which are unknown keys
  to the tree; a boolean, a number, \<^verbatim>\<open>null\<close> and \<^verbatim>\<open>undefined\<close> contribute none.
\<close>

fun decimal :: "nat \<Rightarrow> string" where
  "decimal n =
     (if n < 10 then [''0123456789'' ! n]
      else decimal (n div 10) @ [''0123456789'' ! (n mod 10)])"

declare decimal.simps [simp del]

definition index_properties :: "jsval list \<Rightarrow> (string \<rightharpoonup> jsval)" where
  "index_properties xs = map_of (zip (map decimal [0..<length xs]) xs)"

fun own_properties :: "snapshot \<Rightarrow> snapshot_obj" where
  "own_properties (SObj b) = b"
| "own_properties (SArr xs) = empty_obj\<lparr>s_extras := index_properties xs\<rparr>"
| "own_properties (SStr cs) = empty_obj\<lparr>s_extras := index_properties (map (\<lambda>c. JStr [c]) cs)\<rparr>"
| "own_properties _ = empty_obj"

text \<open>
  Reading \<^verbatim>\<open>savedState.version\<close>: a TypeError on \<^verbatim>\<open>null\<close> and \<^verbatim>\<open>undefined\<close>,
  \<^verbatim>\<open>undefined\<close> on a boolean, a number, a string, an array and an object without the
  key.
\<close>

fun read_version :: "snapshot \<Rightarrow> error + string option" where
  "read_version SUndefined = Inl TypeError"
| "read_version SNull = Inl TypeError"
| "read_version (SBool _) = Inr None"
| "read_version (SNum _) = Inr None"
| "read_version (SStr _) = Inr None"
| "read_version (SArr _) = Inr None"
| "read_version (SObj b) = Inr (s_version b)"

text \<open>
  \<^verbatim>\<open>getCurrentState\<close> is \<^verbatim>\<open>JSON.parse(JSON.stringify(this.state))\<close>. Every value of the
  typed tree is a finite number, a string, a boolean, \<^verbatim>\<open>null\<close>, an array or an object
  of these, so the copy has the keys and values of the tree.
\<close>

definition getCurrentState :: "manager \<Rightarrow> snapshot" where
  "getCurrentState m = SObj (snapshot_of (state m))"

definition migrateState :: "env \<Rightarrow> snapshot \<Rightarrow> manager \<Rightarrow> state \<times> manager" where
  "migrateState e oldState m =
     (spread (getInitialState e) (own_properties oldState),
      console_out ConsoleLog Msg_migrating m)"

text \<open>
  \<^verbatim>\<open>loadState\<close> returns the exception it rethrows, if any, and the manager as the call
  leaves it. The only statement of the \<^verbatim>\<open>try\<close> block that can raise is the first
  read of \<^verbatim>\<open>savedState.version\<close>; the \<^verbatim>\<open>catch\<close> block logs and rethrows.
\<close>

definition loadState :: "env \<Rightarrow> snapshot \<Rightarrow> manager \<Rightarrow> error option \<times> manager" where
  "loadState e savedState m =
     (case read_version savedState of
        Inl err \<Rightarrow> (Some err, console_out ConsoleError (Msg_load_failed err) m)
      | Inr v \<Rightarrow>
          (let (saved, m1) =
                 (if v \<noteq> Some (version (state m))
                  then (case migrateState e savedState
                               (console_out ConsoleWarn Msg_version_mismatch m) of
                          (migrated, m') \<Rightarrow> (snapshot_of migrated, m'))
                  else (own_properties savedState, m));
               m2 = m1\<lparr>state := spread (state m1) saved\<rparr>;
               m3 = m2\<lparr>state := (state m2)\<lparr>lastPlayedAt := now e\<rparr>\<rparr>;
               m4 = m3\<lparr>state := (state m3)\<lparr>hasUnsavedProgress := False\<rparr>\<rparr>;
               m5 = emit (StateLoaded (state m4)) m4
           in (None, console_out ConsoleLog Msg_state_loaded m5)))"


section \<open>Mutation operations\<close>

definition set_state :: "(state \<Rightarrow> state) \<Rightarrow> manager \<Rightarrow> manager" where
  "set_state f m = m\<lparr>state := f (state m)\<rparr>"

text \<open>\<^verbatim>\<open>this.state.characters[charId]\<close>, read and assigned.\<close>

definition get_char :: "manager \<Rightarrow> nat \<Rightarrow> character option" where
  "get_char m charId = map_of (characters (state m)) charId"

definition set_char :: "nat \<Rightarrow> character \<Rightarrow> manager \<Rightarrow> manager" where
  "set_char charId c m =
     set_state (\<lambda>s. s\<lparr>characters := AList.update charId c (characters s)\<rparr>) m"


text \<open>The \<^verbatim>\<open>updates\<close> argument of \<^verbatim>\<open>updateCharacter\<close>: any subset of a character's keys.\<close>

record character_updates =
  upd_name :: "string option"
  upd_level :: "int option"
  upd_hp :: "int option"
  upd_maxHp :: "int option"
  upd_intimacy :: "int option"
  upd_battleCount :: "int option"
  upd_victories :: "int option"
  upd_equipment :: "equipment option"
  upd_totalScore :: "int option"

definition spread_character :: "character \<Rightarrow> character_updates \<Rightarrow> character" where
  "spread_character c u =
     \<lparr> c_name = pick (upd_name u) (c_name c),
       c_level = pick (upd_level u) (c_level c),
       hp = pick (upd_hp u) (hp c),
       maxHp = pick (upd_maxHp u) (maxHp c),
       intimacy = pick (upd_intimacy u) (intimacy c),
       battleCount = pick (upd_battleCount u) (battleCount c),
       victories = pick (upd_victories u) (victories c),
       equipment = pick (upd_equipment u) (equipment c),
       c_totalScore = pick_opt (upd_totalScore u) (c_totalScore c) \<rparr>"

definition updateCharacter :: "env \<Rightarrow> nat \<Rightarrow> character_updates \<Rightarrow> manager \<Rightarrow> manager" where
  "updateCharacter e charId updates m =
     (case get_char m charId of
        None \<Rightarrow> console_out ConsoleWarn (Msg_character_not_found charId) m
      | Some oldState \<Rightarrow>
          (let newState = spread_character oldState updates;
               m1 = set_char charId newState m;
               m2 = markUnsaved e m1
           in emit (CharacterUpdated charId oldState newState) m2))"

text \<open>\<^verbatim>\<open>applyEquipmentBonuses\<close> has an empty body.\<close>

definition applyEquipmentBonuses :: "nat \<Rightarrow> int \<Rightarrow> manager \<Rightarrow> manager" where
  "applyEquipmentBonuses charId lvl m = m"

definition upgradeEquipment :: "env \<Rightarrow> nat \<Rightarrow> int \<Rightarrow> string \<Rightarrow> manager \<Rightarrow> manager" where
  "upgradeEquipment e charId newLevel equipmentName m =
     (case get_char m charId of
        None \<Rightarrow> m
      | Some char \<Rightarrow>
          (let oldLevel = eq_level (equipment char);
               char1 = char\<lparr>equipment := (equipment char)\<lparr>eq_level := newLevel\<rparr>\<rparr>;
               char2 = char1\<lparr>equipment := (equipment char1)\<lparr>eq_name := equipmentName\<rparr>\<rparr>;
               m1 = set_char charId char2 m;
               m2 = applyEquipmentBonuses charId newLevel m1;
               m3 = markUnsaved e m2;
               m4 = emit (EquipmentUpgraded charId oldLevel newLevel equipmentName) m3
           in console_out ConsoleLog (Msg_equipment_upgraded (c_name char) oldLevel newLevel) m4))"

definition upd_player :: "(player \<Rightarrow> player) \<Rightarrow> manager \<Rightarrow> manager" where
  "upd_player f m = set_state (\<lambda>s. s\<lparr>player := f (player s)\<rparr>) m"

definition upd_statistics :: "(statistics \<Rightarrow> statistics) \<Rightarrow> manager \<Rightarrow> manager" where
  "upd_statistics f m = upd_player (\<lambda>p. p\<lparr>statistics := f (statistics p)\<rparr>) m"

definition updateScore :: "env \<Rightarrow> int \<Rightarrow> manager \<Rightarrow> manager" where
  "updateScore e points m =
     (let m1 = upd_player (\<lambda>p. p\<lparr>totalScore := totalScore p + points\<rparr>) m;
          m2 = upd_statistics (\<lambda>t. t\<lparr>gamesPlayed := gamesPlayed t + 1\<rparr>) m1;
          m3 = markUnsaved e m2
      in emit (ScoreUpdated points (totalScore (player (state m3)))) m3)"


definition updateIntimacy :: "env \<Rightarrow> nat \<Rightarrow> int \<Rightarrow> manager \<Rightarrow> manager" where
  "updateIntimacy e charId change m =
     (case get_char m charId of
        None \<Rightarrow> m
      | Some c \<Rightarrow>
          (let oldIntimacy = intimacy c;
               newIntimacy = max 0 (min 100 (oldIntimacy + change));
               m1 = set_char charId (c\<lparr>intimacy := newIntimacy\<rparr>) m;
               m2 = markUnsaved e m1
           in emit (IntimacyChanged charId oldIntimacy newIntimacy) m2))"


definition getFlag :: "manager \<Rightarrow> string \<Rightarrow> jsval \<Rightarrow> jsval" where
  "getFlag m flagName defaultValue =
     (case flags (state m) flagName of Some v \<Rightarrow> v | None \<Rightarrow> defaultValue)"


section \<open>Unlocks, achievements, endings\<close>

text \<open>
  The class body defines \<^verbatim>\<open>unlock\<close> twice and \<^verbatim>\<open>checkEndingConditions\<close> twice. A
  class body installs its methods on the prototype in source order, so the later
  definition replaces the earlier one and every call, also those from inside the
  class, runs the later one. The earlier definitions are kept here under the names
  \<open>unlock_first\<close> and \<open>checkEndingConditions_first\<close>; \<open>unlock\<close> and
  \<open>checkEndingConditions\<close> are the methods that an instance has.
\<close>

definition unlocks_get :: "unlocks \<Rightarrow> string \<Rightarrow> jsval list option" where
  "unlocks_get u category =
     (if category = ''characters'' then Some (u_characters u)
      else if category = ''scenes'' then Some (u_scenes u)
      else if category = ''endings'' then Some (u_endings u)
      else if category = ''gallery'' then Some (u_gallery u)
      else if category = ''achievements'' then Some (u_achievements u)
      else u_others u category)"

definition unlocks_set :: "string \<Rightarrow> jsval list \<Rightarrow> unlocks \<Rightarrow> unlocks" where
  "unlocks_set category xs u =
     (if category = ''characters'' then u\<lparr>u_characters := xs\<rparr>
      else if category = ''scenes'' then u\<lparr>u_scenes := xs\<rparr>
      else if category = ''endings'' then u\<lparr>u_endings := xs\<rparr>
      else if category = ''gallery'' then u\<lparr>u_gallery := xs\<rparr>
      else if category = ''achievements'' then u\<lparr>u_achievements := xs\<rparr>
      else u\<lparr>u_others := (u_others u)(category \<mapsto> xs)\<rparr>)"

text \<open>The first definition, \<^verbatim>\<open>unlock(category, item)\<close> (shadowed).\<close>

definition unlock_first :: "env \<Rightarrow> string \<Rightarrow> jsval \<Rightarrow> manager \<Rightarrow> manager" where
  "unlock_first e category item m =
     (let m1 = (case unlocks_get (unlocks (state m)) category of
                  None \<Rightarrow> set_state (\<lambda>s. s\<lparr>unlocks := unlocks_set category [] (unlocks s)\<rparr>) m
                | Some _ \<Rightarrow> m);
          items = (case unlocks_get (unlocks (state m1)) category of
                     None \<Rightarrow> [] | Some xs \<Rightarrow> xs)
      in if item \<in> set items then m1
         else
           (let m2 = set_state
                       (\<lambda>s. s\<lparr>unlocks := unlocks_set category (items @ [item]) (unlocks s)\<rparr>) m1;
                m3 = markUnsaved e m2;
                m4 = emit (Unlocked category item) m3
            in console_out ConsoleLog (Msg_unlocked category item) m4))"

text \<open>The second definition, \<^verbatim>\<open>unlock(content)\<close>: the method of the class.\<close>

definition unlock :: "env \<Rightarrow> jsval \<Rightarrow> manager \<Rightarrow> manager" where
  "unlock e content m =
     (let m1 = (case unlockedContent (state m) of
                  None \<Rightarrow> set_state (\<lambda>s. s\<lparr>unlockedContent := Some []\<rparr>) m
                | Some _ \<Rightarrow> m);
          items = (case unlockedContent (state m1) of None \<Rightarrow> [] | Some xs \<Rightarrow> xs)
      in if content \<in> set items then m1
         else markUnsaved e
                (set_state (\<lambda>s. s\<lparr>unlockedContent := Some (items @ [content])\<rparr>) m1))"

text \<open>
  A call with two arguments, \<^verbatim>\<open>unlock(category, item)\<close>: the method has the one
  parameter \<^verbatim>\<open>content\<close>, which takes the first argument; the second is dropped.
\<close>

definition unlock2 :: "env \<Rightarrow> string \<Rightarrow> jsval \<Rightarrow> manager \<Rightarrow> manager" where
  "unlock2 e category item m = unlock e (JStr category) m"

definition unlockEnding :: "env \<Rightarrow> jsval \<Rightarrow> manager \<Rightarrow> manager" where
  "unlockEnding e endingType m =
     (let m1 = (case unlockedEndings (state m) of
                  None \<Rightarrow> set_state (\<lambda>s. s\<lparr>unlockedEndings := Some []\<rparr>) m
                | Some _ \<Rightarrow> m);
          items = (case unlockedEndings (state m1) of None \<Rightarrow> [] | Some xs \<Rightarrow> xs)
      in if endingType \<in> set items then m1
         else markUnsaved e
                (set_state (\<lambda>s. s\<lparr>unlockedEndings := Some (items @ [endingType])\<rparr>) m1))"

definition isUnlocked :: "manager \<Rightarrow> string \<Rightarrow> jsval \<Rightarrow> bool" where
  "isUnlocked m category item =
     (case unlocks_get (unlocks (state m)) category of
        None \<Rightarrow> False
      | Some xs \<Rightarrow> item \<in> set xs)"

text \<open>\<^verbatim>\<open>Object.values(this.state.characters)\<close>.\<close>

definition char_values :: "manager \<Rightarrow> character list" where
  "char_values m = map snd (characters (state m))"

text \<open>
  \<^verbatim>\<open>checkAchievements\<close> collects the identifiers first and then calls
  \<^verbatim>\<open>this.unlock('achievements', achievement)\<close> on each; it returns the collected list.
\<close>

definition checkAchievements :: "env \<Rightarrow> manager \<Rightarrow> string list \<times> manager" where
  "checkAchievements e m =
     (let stats = statistics (player (state m));
          owned = u_achievements (unlocks (state m));
          a1 = (if gamesWon stats \<ge> 10 \<and> JStr ''win_10'' \<notin> set owned
                then [''win_10''] else []);
          a2 = (if perfectGames stats \<ge> 1 \<and> JStr ''perfect_1'' \<notin> set owned
                then [''perfect_1''] else []);
          allMaxLevel = list_all (\<lambda>c. eq_level (equipment c) \<ge> 5) (char_values m);
          a3 = (if allMaxLevel \<and> JStr ''all_max_equipment'' \<notin> set owned
                then [''all_max_equipment''] else []);
          achievements = a1 @ a2 @ a3
      in (achievements,
          fold (\<lambda>achievement. unlock2 e ''achievements'' (JStr achievement)) achievements m))"

text \<open>The first definition of \<^verbatim>\<open>checkEndingConditions\<close> (shadowed): the ending's name.\<close>

definition checkEndingConditions_first :: "manager \<Rightarrow> jsval" where
  "checkEndingConditions_first m =
     (let stats = statistics (player (state m));
          chars = char_values m;
          allMaxEquipment = list_all (\<lambda>c. eq_level (equipment c) \<ge> 5) chars;
          allMaxIntimacy = list_all (\<lambda>c. intimacy c \<ge> 100) chars;
          highScore = (totalScore (player (state m)) \<ge> 500000)
      in if allMaxEquipment \<and> allMaxIntimacy \<and> highScore then JStr ''TRUE''
         else
           (let perfect_games = (perfectGames stats \<ge> 3);
                noDefeats = list_all (\<lambda>c. victories c \<ge> battleCount c) chars
            in if perfect_games \<and> noDefeats
                    \<and> isUnlocked m ''achievements'' (JStr ''all_max_equipment'')
               then JStr ''SECRET''
               else
                 (let allCharsChallenged = list_all (\<lambda>c. battleCount c > 0) chars;
                      someVictories = list_ex (\<lambda>c. victories c > 0) chars
                  in if allCharsChallenged \<and> someVictories then JStr ''NORMAL''
                     else JStr ''BAD'')))"

definition getDefeatedCharacters :: "manager \<Rightarrow> nat list" where
  "getDefeatedCharacters m =
     filter (\<lambda>charId. case get_char m charId of
                         None \<Rightarrow> False
                       | Some c \<Rightarrow> victories c > 0)
       (map fst (characters (state m)))"

text \<open>The second definition of \<^verbatim>\<open>checkEndingConditions\<close>: the method of the class.\<close>

definition checkEndingConditions :: "manager \<Rightarrow> jsval" where
  "checkEndingConditions m =
     (let defeatedCount = length (getDefeatedCharacters m)
      in JBool (defeatedCount \<ge> 3))"


section \<open>Battle results, play time, settings, reset\<close>






definition resetGame :: "env \<Rightarrow> manager \<Rightarrow> manager" where
  "resetGame e m =
     (let keptSettings = settings (state m);
          keptPlayerId = playerId (state m);
          m1 = m\<lparr>state := getInitialState e\<rparr>;
          m2 = set_state (\<lambda>s. s\<lparr>settings := keptSettings\<rparr>) m1;
          m3 = set_state (\<lambda>s. s\<lparr>playerId := keptPlayerId\<rparr>) m2;
          m4 = markUnsaved e m3;
          m5 = emit GameReset m4
      in console_out ConsoleLog Msg_game_reset m5)"

section \<open>The later accessors and mutators\<close>

definition getIntimacy :: "manager \<Rightarrow> nat \<Rightarrow> int" where
  "getIntimacy m characterId =
     (case get_char m characterId of None \<Rightarrow> 0 | Some c \<Rightarrow> or_num (intimacy c) 0)"

definition increaseIntimacy :: "env \<Rightarrow> nat \<Rightarrow> int \<Rightarrow> manager \<Rightarrow> manager" where
  "increaseIntimacy e characterId amount m =
     (case get_char m characterId of
        None \<Rightarrow> m
      | Some c \<Rightarrow>
          markUnsaved e
            (set_char characterId
               (c\<lparr>intimacy := min 100 (or_num (intimacy c) 0 + amount)\<rparr>) m))"

definition getCharacterLevel :: "manager \<Rightarrow> nat \<Rightarrow> int" where
  "getCharacterLevel m characterId =
     (case get_char m characterId of
        None \<Rightarrow> 1
      | Some c \<Rightarrow> or_num (eq_level (equipment c)) 1)"

text \<open>
  In the typed tree every character has its \<^verbatim>\<open>equipment\<close> object, so the branch of
  \<^verbatim>\<open>setCharacterLevel\<close> that creates a missing one is never taken.
\<close>

definition setCharacterLevel :: "env \<Rightarrow> nat \<Rightarrow> int \<Rightarrow> manager \<Rightarrow> manager" where
  "setCharacterLevel e characterId lvl m =
     (case get_char m characterId of
        None \<Rightarrow> m
      | Some c \<Rightarrow>
          markUnsaved e
            (set_char characterId (c\<lparr>equipment := (equipment c)\<lparr>eq_level := lvl\<rparr>\<rparr>) m))"

definition upgradeCharacterEquipment :: "env \<Rightarrow> nat \<Rightarrow> manager \<Rightarrow> bool \<times> manager" where
  "upgradeCharacterEquipment e characterId m =
     (case get_char m characterId of
        None \<Rightarrow> (False, m)
      | Some c \<Rightarrow>
          (let currentLevel = or_num (eq_level (equipment c)) 1
           in if currentLevel < 5
              then (True,
                    markUnsaved e
                      (set_char characterId
                         (c\<lparr>equipment := (equipment c)\<lparr>eq_level := currentLevel + 1\<rparr>\<rparr>) m))
              else (False, m)))"

definition recordBattleResult :: "env \<Rightarrow> nat \<Rightarrow> string \<Rightarrow> int \<Rightarrow> manager \<Rightarrow> manager" where
  "recordBattleResult e characterId result score m =
     (case get_char m characterId of
        None \<Rightarrow> m
      | Some c \<Rightarrow>
          (let c1 = c\<lparr>battleCount := or_num (battleCount c) 0 + 1\<rparr>;
               c2 = c1\<lparr>c_totalScore := Some (or_undef (c_totalScore c1) 0 + score)\<rparr>;
               c3 = (if result = ''win'' \<or> result = ''perfect_win''
                     then c2\<lparr>victories := or_num (victories c2) 0 + 1\<rparr> else c2);
               m1 = set_char characterId c3 m;
               m2 = (if result = ''perfect_win''
                     then upd_statistics
                            (\<lambda>t. t\<lparr>perfectGames := or_num (perfectGames t) 0 + 1\<rparr>) m1
                     else m1);
               m3 = upd_statistics (\<lambda>t. t\<lparr>gamesPlayed := or_num (gamesPlayed t) 0 + 1\<rparr>) m2;
               m4 = (if result = ''win'' \<or> result = ''perfect_win''
                     then upd_statistics (\<lambda>t. t\<lparr>gamesWon := or_num (gamesWon t) 0 + 1\<rparr>) m3
                     else m3);
               m5 = upd_player (\<lambda>p. p\<lparr>totalScore := or_num (totalScore p) 0 + score\<rparr>) m4
           in markUnsaved e m5))"

definition areAllCharactersMaxLevel :: "manager \<Rightarrow> bool" where
  "areAllCharactersMaxLevel m = list_all (\<lambda>c. eq_level (equipment c) \<ge> 5) (char_values m)"

definition areAllCharactersMaxIntimacy :: "manager \<Rightarrow> bool" where
  "areAllCharactersMaxIntimacy m = list_all (\<lambda>c. intimacy c \<ge> 100) (char_values m)"

definition hasSecretCondition :: "manager \<Rightarrow> bool" where
  "hasSecretCondition m =
     list_all (\<lambda>c. victories c \<ge> 3 \<and> intimacy c \<ge> 80) (char_values m)"


section \<open>Sequences of equipment calls\<close>

datatype equipment_call =
    UpgradeEquipment nat int string
  | SetCharacterLevel nat int
  | UpgradeCharacterEquipment nat

fun perform :: "env \<Rightarrow> equipment_call \<Rightarrow> manager \<Rightarrow> manager" where
  "perform e (UpgradeEquipment k l n) m = upgradeEquipment e k l n m"
| "perform e (SetCharacterLevel k l) m = setCharacterLevel e k l m"
| "perform e (UpgradeCharacterEquipment k) m = snd (upgradeCharacterEquipment e k m)"

fun perform_all :: "(env \<times> equipment_call) list \<Rightarrow> manager \<Rightarrow> manager" where
  "perform_all [] m = m"
| "perform_all ((e, c) # cs) m = perform_all cs (perform e c m)"

text \<open>The level that a call specifies, if it specifies one, is within 1..5.\<close>

fun level_in_range :: "equipment_call \<Rightarrow> bool" where
  "level_in_range (UpgradeEquipment k l n) = (1 \<le> l \<and> l \<le> 5)"
| "level_in_range (SetCharacterLevel k l) = (1 \<le> l \<and> l \<le> 5)"
| "level_in_range (UpgradeCharacterEquipment k) = True"

fun is_step :: "equipment_call \<Rightarrow> bool" where
  "is_step (UpgradeCharacterEquipment k) = True"
| "is_step _ = False"

definition level_of :: "manager \<Rightarrow> nat \<Rightarrow> int option" where
  "level_of m k = map_option (\<lambda>c. eq_level (equipment c)) (get_char m k)"

definition levels_ok :: "manager \<Rightarrow> bool" where
  "levels_ok m =
     list_all (\<lambda>c. 1 \<le> eq_level (equipment c) \<and> eq_level (equipment c) \<le> 5) (char_values m)"

definition intimacy_of :: "manager \<Rightarrow> nat \<Rightarrow> int option" where
  "intimacy_of m k = map_option intimacy (get_char m k)"

section \<open>The object store and JSON\<close>

text \<open>
  To say that a snapshot shares nothing with the live tree, objects need identities. In
  the object store every object and array has an address, and a property or array slot
  holds a primitive value or the address of an object. The store grows at its end, so an
  address is an index and the addresses below \<open>length st\<close> are the objects that exist.
\<close>

type_synonym addr = nat

datatype slot = PNull | PBool bool | PNum real | PStr string | PRef addr

datatype object = Obj "(string \<times> slot) list" | Arr "slot list"


fun slot_refs :: "slot \<Rightarrow> addr list" where
  "slot_refs (PRef a) = [a]"
| "slot_refs _ = []"

fun object_refs :: "object \<Rightarrow> addr list" where
  "object_refs (Obj fs) = concat (map (\<lambda>(k, v). slot_refs v) fs)"
| "object_refs (Arr vs) = concat (map slot_refs vs)"




text \<open>All the addresses of a list are at or above \<open>n\<close>: none is an object that existed at \<open>n\<close>.\<close>

definition fresh_from :: "nat \<Rightarrow> addr list \<Rightarrow> bool" where
  "fresh_from n as = list_all (\<lambda>a. n \<le> a) as"

definition objects_fresh_from :: "nat \<Rightarrow> object list \<Rightarrow> bool" where
  "objects_fresh_from n os = list_all (\<lambda>ob. fresh_from n (object_refs ob)) os"



section \<open>Concrete inputs\<close>

definition env0 :: env where
  "env0 = \<lparr> now = 1000, generatePlayerId = ''player_abc_1000'' \<rparr>"

definition env1 :: env where
  "env1 = \<lparr> now = 2000, generatePlayerId = ''player_xyz_2000'' \<rparr>"

text \<open>
  A manager in which every character has equipment level 5 and intimacy 100, the score is
  500000, three perfect games are counted, no battle was lost and the achievement
  \<^verbatim>\<open>all_max_equipment\<close> is unlocked: the conditions of the TRUE and of the SECRET
  ending hold together.
\<close>

definition maxed :: "character \<Rightarrow> character" where
  "maxed c = c\<lparr>intimacy := 100, equipment := (equipment c)\<lparr>eq_level := 5\<rparr>\<rparr>"

definition both_endings :: manager where
  "both_endings =
     set_state (\<lambda>s. s\<lparr>
        characters := map (\<lambda>(k, c). (k, maxed c)) (characters s),
        player := (player s)\<lparr>totalScore := 500000,
                     statistics := (statistics (player s))\<lparr>perfectGames := 3\<rparr>\<rparr>,
        unlocks := (unlocks s)\<lparr>u_achievements := [JStr ''all_max_equipment'']\<rparr>\<rparr>)
       (constructor env0)"

text \<open>A fresh manager after one perfect win against character 1.\<close>

definition one_perfect :: manager where
  "one_perfect = recordBattleResult env0 1 ''perfect_win'' 1000 (constructor env0)"

text \<open>A manager with a score, one that unlocked something, and one with a flag set.\<close>

definition progressed :: manager where
  "progressed = updateScore env0 250 (constructor env0)"

definition later :: manager where
  "later = unlock env0 (JStr ''gallery'') (constructor env0)"



definition no_updates :: character_updates where
  "no_updates =
     \<lparr> upd_name = None, upd_level = None, upd_hp = None, upd_maxHp = None,
       upd_intimacy = None, upd_battleCount = None, upd_victories = None,
       upd_equipment = None, upd_totalScore = None \<rparr>"

definition calls0 :: "(env \<times> equipment_call) list" where
  "calls0 =
     [ (env0, UpgradeCharacterEquipment 1),
       (env1, UpgradeEquipment 2 4 ''juu soubi''),
       (env1, SetCharacterLevel 3 5),
       (env1, UpgradeCharacterEquipment 3) ]"

definition steps0 :: "(env \<times> equipment_call) list" where
  "steps0 = [ (env0, UpgradeCharacterEquipment 1), (env1, UpgradeCharacterEquipment 1) ]"




section \<open>Basic facts\<close>

lemmas eval_defs =
  env0_def env1_def constructor_def getInitialState_def set_state_def get_char_def
  set_char_def markUnsaved_def emit_def console_out_def or_num_def or_undef_def
  upd_player_def upd_statistics_def char_values_def isUnlocked_def unlocks_get_def
  unlocks_set_def Let_def

lemma get_char_set_char: "get_char (set_char k c m) k = Some c"
  by (simp add: get_char_def set_char_def set_state_def update_conv')

lemma get_char_markUnsaved: "get_char (markUnsaved e m) k = get_char m k"
  by (simp add: get_char_def markUnsaved_def)

lemma get_char_emit: "get_char (emit ev m) k = get_char m k"
  by (simp add: get_char_def emit_def)

lemma get_char_console_out: "get_char (console_out l msg m) k = get_char m k"
  by (simp add: get_char_def console_out_def)

lemma get_char_set_char_other: "j \<noteq> k \<Longrightarrow> get_char (set_char j c m) k = get_char m k"
  by (simp add: get_char_def set_char_def set_state_def update_conv')



lemma pick_opt_None: "pick_opt (pick_opt x None) d = pick_opt x d"
  by (cases x) (simp_all add: pick_opt_def)







section \<open>Intimacy\<close>

text \<open>\<^verbatim>\<open>updateIntimacy\<close> clamps on both sides, whatever the old value and the change.\<close>

lemma updateIntimacy_in_range:
  assumes "get_char m charId = Some c"
  shows "\<exists>v. intimacy_of (updateIntimacy e charId change m) charId = Some v \<and> 0 \<le> v \<and> v \<le> 100"
  using assms
  by (simp add: updateIntimacy_def intimacy_of_def Let_def get_char_set_char
      get_char_markUnsaved get_char_emit)

text \<open>\<^verbatim>\<open>increaseIntimacy\<close> bounds the result by 100 from above only.\<close>

lemma increaseIntimacy_value:
  assumes "get_char m characterId = Some c"
  shows "intimacy_of (increaseIntimacy e characterId amount m) characterId
           = Some (min 100 (intimacy c + amount))"
  using assms
  by (simp add: increaseIntimacy_def intimacy_of_def get_char_set_char get_char_markUnsaved
      or_num_def)

text \<open>
  Claim C3: after \<^verbatim>\<open>updateIntimacy(id, delta)\<close> or \<^verbatim>\<open>increaseIntimacy(id, amount)\<close> on an
  existing character the intimacy lies within 0..100, for every integer delta. The code
  of \<^verbatim>\<open>increaseIntimacy\<close> breaks this: on a fresh manager, where character 1 has intimacy
  0, the call \<^verbatim>\<open>increaseIntimacy(1, -5)\<close> stores -5.
\<close>

theorem increaseIntimacy_below_zero:
  "intimacy_of (constructor env0) 1 = Some 0
   \<and> intimacy_of (increaseIntimacy env0 1 (- 5) (constructor env0)) 1 = Some (- 5)"
  by (simp add: increaseIntimacy_def intimacy_of_def eval_defs)

section \<open>Endings\<close>

text \<open>The shadowed first definition does return TRUE when its first test holds.\<close>

lemma checkEndingConditions_first_TRUE:
  assumes "list_all (\<lambda>c. eq_level (equipment c) = 5) (char_values m)"
    and "list_all (\<lambda>c. intimacy c = 100) (char_values m)"
    and "totalScore (player (state m)) \<ge> 500000"
  shows "checkEndingConditions_first m = JStr ''TRUE''"
proof -
  have "list_all (\<lambda>c. eq_level (equipment c) \<ge> 5) (char_values m)"
    using assms(1) by (simp add: list_all_iff)
  moreover have "list_all (\<lambda>c. intimacy c \<ge> 100) (char_values m)"
    using assms(2) by (simp add: list_all_iff)
  ultimately show ?thesis
    using assms(3) by (simp add: checkEndingConditions_first_def Let_def)
qed

text \<open>The method of the class returns a boolean for every state.\<close>

lemma checkEndingConditions_boolean:
  "checkEndingConditions m = JBool (length (getDefeatedCharacters m) \<ge> 3)"
  by (simp add: checkEndingConditions_def Let_def)

text \<open>
  Claim C1: the ending resolution returns one of TRUE, SECRET, NORMAL, BAD, testing in
  this order, and returns TRUE where the TRUE and the SECRET conditions hold together.
  The code breaks this: the second definition of \<^verbatim>\<open>checkEndingConditions\<close> replaces the
  first, so on the manager \<open>both_endings\<close> the method returns the boolean
  \<^verbatim>\<open>false\<close>, where the shadowed first definition would return TRUE.
\<close>

theorem checkEndingConditions_not_an_ending:
  "checkEndingConditions both_endings = JBool False
   \<and> checkEndingConditions_first both_endings = JStr ''TRUE''"
  by (simp add: checkEndingConditions_def checkEndingConditions_first_def
      getDefeatedCharacters_def both_endings_def maxed_def eval_defs)

section \<open>Unlocking\<close>

text \<open>
  The shadowed first definition inserts an item once and emits one event, however often
  it is called.
\<close>

lemma unlocks_get_set: "unlocks_get (unlocks_set category xs u) category = Some xs"
  by (simp add: unlocks_get_def unlocks_set_def)

lemma unlock_first_once:
  assumes "item \<notin> set (pick (unlocks_get (unlocks (state m)) category) [])"
  shows "unlocks_get (unlocks (state (unlock_first e category item m))) category
           = Some (pick (unlocks_get (unlocks (state m)) category) [] @ [item])"
    and "emitted (unlock_first e category item m) = emitted m @ [Unlocked category item]"
  using assms
  by (auto simp: unlock_first_def Let_def pick_def set_state_def markUnsaved_def emit_def
      console_out_def unlocks_get_set split: option.splits)

lemma unlock_first_again:
  assumes "unlocks_get (unlocks (state m)) category = Some xs" and "item \<in> set xs"
  shows "unlock_first e category item m = m"
  using assms by (simp add: unlock_first_def Let_def)

lemma unlock_first_twice:
  assumes "item \<notin> set (pick (unlocks_get (unlocks (state m)) category) [])"
  shows "unlocks_get (unlocks (state
            (unlock_first e' category item (unlock_first e category item m)))) category
           = Some (pick (unlocks_get (unlocks (state m)) category) [] @ [item])"
    and "emitted (unlock_first e' category item (unlock_first e category item m))
           = emitted m @ [Unlocked category item]"
proof -
  note once = unlock_first_once [OF assms, of e]
  have "unlock_first e' category item (unlock_first e category item m)
          = unlock_first e category item m"
    by (rule unlock_first_again [OF once(1)]) simp
  with once show
    "unlocks_get (unlocks (state
            (unlock_first e' category item (unlock_first e category item m)))) category
           = Some (pick (unlocks_get (unlocks (state m)) category) [] @ [item])"
    and "emitted (unlock_first e' category item (unlock_first e category item m))
           = emitted m @ [Unlocked category item]"
    by simp_all
qed

text \<open>
  The method of the class never touches \<^verbatim>\<open>unlocks\<close>, the player or the characters, and
  so a second \<^verbatim>\<open>checkAchievements\<close> finds what the first one found.
\<close>

lemma unlock_keeps:
  "unlocks (state (unlock e content m)) = unlocks (state m)"
  "player (state (unlock e content m)) = player (state m)"
  "characters (state (unlock e content m)) = characters (state m)"
  by (simp_all add: unlock_def Let_def set_state_def markUnsaved_def split: option.split)

lemma fold_unlock2_keeps:
  "unlocks (state (fold (\<lambda>a. unlock2 e category (f a)) xs m)) = unlocks (state m)"
  "player (state (fold (\<lambda>a. unlock2 e category (f a)) xs m)) = player (state m)"
  "characters (state (fold (\<lambda>a. unlock2 e category (f a)) xs m)) = characters (state m)"
  by (induction xs arbitrary: m) (simp_all add: unlock2_def unlock_keeps)

lemma checkAchievements_repeats:
  "fst (checkAchievements e' (snd (checkAchievements e m))) = fst (checkAchievements e m)"
  by (simp add: checkAchievements_def Let_def fold_unlock2_keeps char_values_def)

text \<open>
  Claim C2: calling \<^verbatim>\<open>unlock(category, item)\<close> twice leaves the item exactly once in the
  category's set and emits exactly one \<^verbatim>\<open>unlocked\<close> event. The code breaks this: the
  second definition of \<^verbatim>\<open>unlock\<close> replaces the first, so on a fresh manager two calls
  \<^verbatim>\<open>unlock('gallery', 'cg_1')\<close> leave the gallery set empty, emit nothing, and put the
  string \<^verbatim>\<open>gallery\<close> into \<^verbatim>\<open>unlockedContent\<close>.
\<close>

theorem unlock_twice_no_membership_no_event:
  "u_gallery (unlocks (state
       (unlock2 env0 ''gallery'' (JStr ''cg_1'')
          (unlock2 env0 ''gallery'' (JStr ''cg_1'') (constructor env0))))) = []
   \<and> emitted
       (unlock2 env0 ''gallery'' (JStr ''cg_1'')
          (unlock2 env0 ''gallery'' (JStr ''cg_1'') (constructor env0))) = []
   \<and> unlockedContent (state
       (unlock2 env0 ''gallery'' (JStr ''cg_1'')
          (unlock2 env0 ''gallery'' (JStr ''cg_1'') (constructor env0))))
       = Some [JStr ''gallery'']"
  by (simp add: unlock2_def unlock_def eval_defs)

text \<open>
  Claim C6: the achievement check returns the identifiers that are satisfied and not yet
  in \<^verbatim>\<open>unlocks.achievements\<close>, unlocks each, and so never reports one twice. The code
  breaks the second half: \<^verbatim>\<open>this.unlock('achievements', id)\<close> runs the second definition
  of \<^verbatim>\<open>unlock\<close>, which leaves \<^verbatim>\<open>unlocks.achievements\<close> as it was. After one perfect win,
  two checks in a row both report \<^verbatim>\<open>perfect_1\<close>.
\<close>

theorem checkAchievements_reports_again:
  "fst (checkAchievements env0 one_perfect) = [''perfect_1'']
   \<and> u_achievements (unlocks (state (snd (checkAchievements env0 one_perfect)))) = []
   \<and> fst (checkAchievements env1 (snd (checkAchievements env0 one_perfect))) = [''perfect_1'']"
  by (simp add: checkAchievements_def one_perfect_def recordBattleResult_def unlock2_def
      unlock_def eval_defs)


section \<open>Loading and migration\<close>

lemma loadState_fail:
  assumes "read_version snap = Inl err"
  shows "loadState e snap m = (Some err, console_out ConsoleError (Msg_load_failed err) m)"
  using assms by (simp add: loadState_def)

lemma loadState_same_version:
  assumes "read_version snap = Inr (Some (version (state m)))"
  shows "loadState e snap m =
    (None,
     console_out ConsoleLog Msg_state_loaded
       (emit (StateLoaded ((spread (state m) (own_properties snap))
                             \<lparr>lastPlayedAt := now e, hasUnsavedProgress := False\<rparr>))
          (m\<lparr>state := (spread (state m) (own_properties snap))
                          \<lparr>lastPlayedAt := now e, hasUnsavedProgress := False\<rparr>\<rparr>)))"
  using assms by (simp add: loadState_def Let_def)

lemma loadState_other_version:
  assumes "read_version snap = Inr v" and "v \<noteq> Some (version (state m))"
  shows "loadState e snap m =
    (None,
     console_out ConsoleLog Msg_state_loaded
       (emit (StateLoaded
                ((spread (state m)
                    (snapshot_of (spread (getInitialState e) (own_properties snap))))
                   \<lparr>lastPlayedAt := now e, hasUnsavedProgress := False\<rparr>))
          ((console_out ConsoleLog Msg_migrating
              (console_out ConsoleWarn Msg_version_mismatch m))
             \<lparr>state :=
                (spread (state m)
                   (snapshot_of (spread (getInitialState e) (own_properties snap))))
                  \<lparr>lastPlayedAt := now e, hasUnsavedProgress := False\<rparr>\<rparr>)))"
  using assms by (simp add: loadState_def Let_def migrateState_def console_out_def)


lemma read_version_Inl: "(read_version snap = Inl err) = (snap = SUndefined \<or> snap = SNull)"
  by (cases snap; cases err) simp_all

lemma loadState_succeeds:
  assumes "read_version snap = Inr v"
  shows "fst (loadState e snap m) = None"
proof (cases "v = Some (version (state m))")
  case True
  with assms loadState_same_version [of snap m e] show ?thesis by simp
next
  case False
  with assms loadState_other_version [of snap v m e] show ?thesis by simp
qed

lemma loadState_fails_iff:
  "(fst (loadState e snap m) \<noteq> None) = (snap = SUndefined \<or> snap = SNull)"
proof (cases "read_version snap")
  case (Inl err)
  with loadState_fail [OF Inl, of e m] read_version_Inl [of snap err] show ?thesis by simp
next
  case (Inr v)
  then have "snap \<noteq> SUndefined \<and> snap \<noteq> SNull" by auto
  with loadState_succeeds [OF Inr, of e m] show ?thesis by simp
qed

text \<open>
  Claim C7, as amended: \<^verbatim>\<open>loadState\<close> fails only on a snapshot that is \<^verbatim>\<open>null\<close> or
  \<^verbatim>\<open>undefined\<close>; the TypeError is logged and rethrown as it is, and the tree and the
  emitted events are untouched. Every other snapshot is accepted without validation:
  the live tree is overlaid key by key with the snapshot (same version) or with the
  default tree overlaid by the snapshot (other version), \<^verbatim>\<open>lastPlayedAt\<close> is refreshed,
  \<^verbatim>\<open>hasUnsavedProgress\<close> is cleared and one \<^verbatim>\<open>stateLoaded\<close> event carries the new tree.
\<close>

theorem loadState_all_or_nothing:
  "((fst (loadState e snap m) \<noteq> None) = (snap = SUndefined \<or> snap = SNull))
   \<and> (read_version snap = Inl err \<longrightarrow>
      fst (loadState e snap m) = Some err
      \<and> state (snd (loadState e snap m)) = state m
      \<and> emitted (snd (loadState e snap m)) = emitted m
      \<and> console (snd (loadState e snap m)) = console m @ [(ConsoleError, Msg_load_failed err)])
   \<and> (read_version snap = Inr (Some (version (state m))) \<longrightarrow>
      fst (loadState e snap m) = None
      \<and> state (snd (loadState e snap m)) =
          (spread (state m) (own_properties snap))
            \<lparr>lastPlayedAt := now e, hasUnsavedProgress := False\<rparr>
      \<and> emitted (snd (loadState e snap m)) =
          emitted m @ [StateLoaded (state (snd (loadState e snap m)))])
   \<and> (read_version snap = Inr v \<and> v \<noteq> Some (version (state m)) \<longrightarrow>
      fst (loadState e snap m) = None
      \<and> state (snd (loadState e snap m)) =
          (spread (state m) (snapshot_of (spread (getInitialState e) (own_properties snap))))
            \<lparr>lastPlayedAt := now e, hasUnsavedProgress := False\<rparr>
      \<and> emitted (snd (loadState e snap m)) =
          emitted m @ [StateLoaded (state (snd (loadState e snap m)))])"
proof (intro conjI impI)
  show "(fst (loadState e snap m) \<noteq> None) = (snap = SUndefined \<or> snap = SNull)"
    by (rule loadState_fails_iff)
next
  assume "read_version snap = Inl err"
  note f = loadState_fail [OF this, of e m]
  show "fst (loadState e snap m) = Some err" by (simp add: f)
  show "state (snd (loadState e snap m)) = state m" by (simp add: f console_out_def)
  show "emitted (snd (loadState e snap m)) = emitted m" by (simp add: f console_out_def)
  show "console (snd (loadState e snap m)) = console m @ [(ConsoleError, Msg_load_failed err)]"
    by (simp add: f console_out_def)
next
  assume "read_version snap = Inr (Some (version (state m)))"
  note s = loadState_same_version [OF this, of e]
  show "fst (loadState e snap m) = None" by (simp add: s)
  show "state (snd (loadState e snap m)) =
          (spread (state m) (own_properties snap))\<lparr>lastPlayedAt := now e, hasUnsavedProgress := False\<rparr>"
    by (simp add: s console_out_def emit_def)
  show "emitted (snd (loadState e snap m)) = emitted m @ [StateLoaded (state (snd (loadState e snap m)))]"
    by (simp add: s console_out_def emit_def)
next
  assume a: "read_version snap = Inr v \<and> v \<noteq> Some (version (state m))"
  note s = loadState_other_version [OF conjunct1 [OF a] conjunct2 [OF a], of e]
  show "fst (loadState e snap m) = None" by (simp add: s)
  show "state (snd (loadState e snap m)) =
          (spread (state m) (snapshot_of (spread (getInitialState e) (own_properties snap))))
            \<lparr>lastPlayedAt := now e, hasUnsavedProgress := False\<rparr>"
    by (simp add: s console_out_def emit_def)
  show "emitted (snd (loadState e snap m)) = emitted m @ [StateLoaded (state (snd (loadState e snap m)))]"
    by (simp add: s console_out_def emit_def)
qed

theorem loadState_all_or_nothing_witness:
  "read_version SNull = Inl TypeError
   \<and> fst (loadState env1 SNull progressed) = Some TypeError
   \<and> state (snd (loadState env1 SNull progressed)) = state progressed
   \<and> emitted (snd (loadState env1 SNull progressed)) = emitted progressed
   \<and> read_version (getCurrentState progressed) = Inr (Some (version (state progressed)))
   \<and> fst (loadState env1 (getCurrentState progressed) progressed) = None
   \<and> lastPlayedAt (state (snd (loadState env1 (getCurrentState progressed) progressed))) = 2000
   \<and> read_version (SNum 5) = Inr None
   \<and> None \<noteq> Some (version (state progressed))
   \<and> fst (loadState env1 (SNum 5) progressed) = None
   \<and> totalScore (player (state (snd (loadState env1 (SNum 5) progressed)))) = 0"
proof -
  have a: "read_version SNull = Inl TypeError" by simp
  have b: "read_version (getCurrentState progressed) = Inr (Some (version (state progressed)))"
    by (simp add: getCurrentState_def snapshot_of_def)
  have c: "read_version (SNum 5) = Inr None \<and> None \<noteq> Some (version (state progressed))"
    by simp
  have n1: "fst (loadState env1 SNull progressed) = Some TypeError
      \<and> state (snd (loadState env1 SNull progressed)) = state progressed
      \<and> emitted (snd (loadState env1 SNull progressed)) = emitted progressed"
    using a loadState_all_or_nothing [where snap = SNull and err = TypeError and e = env1
        and m = progressed]
    by blast
  have n2: "fst (loadState env1 (getCurrentState progressed) progressed) = None"
    and s2: "state (snd (loadState env1 (getCurrentState progressed) progressed)) =
          (spread (state progressed) (own_properties (getCurrentState progressed)))
            \<lparr>lastPlayedAt := now env1, hasUnsavedProgress := False\<rparr>"
    using b loadState_all_or_nothing [where snap = "getCurrentState progressed" and e = env1
        and m = progressed]
    by blast+
  have n3: "fst (loadState env1 (SNum 5) progressed) = None"
    and s3: "state (snd (loadState env1 (SNum 5) progressed)) =
          (spread (state progressed)
             (snapshot_of (spread (getInitialState env1) (own_properties (SNum 5)))))
            \<lparr>lastPlayedAt := now env1, hasUnsavedProgress := False\<rparr>"
    using c loadState_all_or_nothing [where snap = "SNum 5" and e = env1 and m = progressed
        and v = None]
    by blast+
  have t2: "lastPlayedAt (state (snd (loadState env1 (getCurrentState progressed) progressed))) = 2000"
    unfolding s2 by (simp add: env1_def)
  have t3: "totalScore (player (state (snd (loadState env1 (SNum 5) progressed)))) = 0"
    unfolding s3
    by (simp add: spread_def snapshot_of_def getInitialState_def pick_def empty_obj_def)
  show ?thesis
    using a b c n1 n2 n3 t2 t3 by blast
qed

text \<open>
  Claim C7 as stated fails: a snapshot that is not of the expected shape, the number 5,
  raises no error, and the load replaces the score 250 of the live tree by the default 0
  and the player id by a newly generated one.
\<close>

theorem loadState_accepts_malformed:
  "fst (loadState env1 (SNum 5) progressed) = None
   \<and> totalScore (player (state progressed)) = 250
   \<and> totalScore (player (state (snd (loadState env1 (SNum 5) progressed)))) = 0
   \<and> playerId (state (snd (loadState env1 (SNum 5) progressed))) = ''player_xyz_2000''"
  by (simp add: loadState_def migrateState_def progressed_def updateScore_def spread_def
      snapshot_of_def pick_def pick_opt_def empty_obj_def eval_defs)

text \<open>An array is loaded too: its elements become unknown keys of the tree.\<close>

lemma loadState_array:
  "fst (loadState env1 (SArr [JNum 7]) (constructor env0)) = None
   \<and> extras (state (snd (loadState env1 (SArr [JNum 7]) (constructor env0)))) ''0''
       = Some (JNum 7)"
  by (simp add: loadState_def migrateState_def spread_def snapshot_of_def pick_def pick_opt_def
      empty_obj_def index_properties_def decimal.simps eval_defs)



section \<open>Snapshots on the object store\<close>



lemma fresh_from_append [simp]: "fresh_from n (as @ bs) = (fresh_from n as \<and> fresh_from n bs)"
  by (simp add: fresh_from_def)

lemma objects_fresh_from_append [simp]:
  "objects_fresh_from n (os @ ps) = (objects_fresh_from n os \<and> objects_fresh_from n ps)"
  by (simp add: objects_fresh_from_def)








section \<open>The round trip\<close>




text \<open>
  Outside the data model the load is a merge: a key that the snapshot lacks keeps the
  value of the live tree. Take the snapshot of a fresh manager, call \<^verbatim>\<open>unlock\<close>, and load
  the snapshot back: \<^verbatim>\<open>unlockedContent\<close>, written after the snapshot was taken, is still
  there.
\<close>

lemma loadState_keeps_keys_outside_model:
  "unlockedContent (state (constructor env0)) = None
   \<and> fst (loadState env1 (getCurrentState (constructor env0)) later) = None
   \<and> unlockedContent (state (snd (loadState env1 (getCurrentState (constructor env0)) later)))
       = Some [JStr ''gallery'']"
  by (simp add: loadState_def getCurrentState_def later_def unlock_def spread_def
      snapshot_of_def pick_def pick_opt_def eval_defs)

section \<open>Unknown character ids\<close>

text \<open>
  Claim C10, as amended: with a character id that the tree does not have,
  \<^verbatim>\<open>updateCharacter\<close> leaves the tree and the events as they are and writes one warning
  to the console; \<^verbatim>\<open>upgradeEquipment\<close>, \<^verbatim>\<open>updateIntimacy\<close>, \<^verbatim>\<open>increaseIntimacy\<close> and
  \<^verbatim>\<open>recordBattleResult\<close> change nothing at all and report nothing.
\<close>

theorem unknown_character_noop:
  assumes "get_char m k = None"
  shows "state (updateCharacter e k u m) = state m
       \<and> emitted (updateCharacter e k u m) = emitted m
       \<and> console (updateCharacter e k u m) = console m @ [(ConsoleWarn, Msg_character_not_found k)]
       \<and> upgradeEquipment e k l n m = m
       \<and> updateIntimacy e k d m = m
       \<and> increaseIntimacy e k a m = m
       \<and> recordBattleResult e k r sc m = m"
  using assms
  by (simp add: updateCharacter_def upgradeEquipment_def updateIntimacy_def
      increaseIntimacy_def recordBattleResult_def console_out_def)

theorem unknown_character_noop_witness:
  "get_char (constructor env0) 9 = None
   \<and> state (updateCharacter env0 9 no_updates (constructor env0)) = state (constructor env0)
   \<and> emitted (updateCharacter env0 9 no_updates (constructor env0)) = emitted (constructor env0)
   \<and> console (updateCharacter env0 9 no_updates (constructor env0))
        = console (constructor env0) @ [(ConsoleWarn, Msg_character_not_found 9)]
   \<and> upgradeEquipment env0 9 3 ''armor'' (constructor env0) = constructor env0
   \<and> updateIntimacy env0 9 10 (constructor env0) = constructor env0
   \<and> increaseIntimacy env0 9 10 (constructor env0) = constructor env0
   \<and> recordBattleResult env0 9 ''win'' 500 (constructor env0) = constructor env0"
proof -
  have h: "get_char (constructor env0) 9 = None"
    by (simp add: eval_defs)
  show ?thesis
    using h unknown_character_noop [OF h, of env0 no_updates 3 "''armor''" 10 10 "''win''" 500]
    by simp
qed

text \<open>
  Claim C10 as stated fails: \<^verbatim>\<open>upgradeEquipment\<close> and \<^verbatim>\<open>updateIntimacy\<close> with the
  unknown id 9 write nothing to the console.
\<close>

theorem unknown_character_silent:
  "get_char (constructor env0) 9 = None
   \<and> console (upgradeEquipment env0 9 3 ''armor'' (constructor env0)) = []
   \<and> console (updateIntimacy env0 9 10 (constructor env0)) = []"
  by (simp add: upgradeEquipment_def updateIntimacy_def eval_defs)

section \<open>Equipment levels\<close>

lemma list_all_update:
  "list_all P (map snd al) \<Longrightarrow> P v \<Longrightarrow> list_all P (map snd (AList.update k v al))"
  by (induction al) auto

lemma levels_ok_set_char:
  "levels_ok m \<Longrightarrow> 1 \<le> eq_level (equipment c) \<Longrightarrow> eq_level (equipment c) \<le> 5
   \<Longrightarrow> levels_ok (set_char k c m)"
  by (simp add: levels_ok_def char_values_def set_char_def set_state_def list_all_update)

lemma levels_ok_markUnsaved: "levels_ok (markUnsaved e m) = levels_ok m"
  by (simp add: levels_ok_def char_values_def markUnsaved_def)

lemma levels_ok_emit: "levels_ok (emit ev m) = levels_ok m"
  by (simp add: levels_ok_def char_values_def emit_def)

lemma levels_ok_console_out: "levels_ok (console_out l msg m) = levels_ok m"
  by (simp add: levels_ok_def char_values_def console_out_def)

lemma levels_ok_get_char:
  assumes "levels_ok m" and "get_char m k = Some c"
  shows "1 \<le> eq_level (equipment c) \<and> eq_level (equipment c) \<le> 5"
proof -
  from assms(2) have "(k, c) \<in> set (characters (state m))"
    by (simp add: get_char_def map_of_SomeD)
  then have "c \<in> set (char_values m)"
    by (force simp: char_values_def)
  with assms(1) show ?thesis
    by (simp add: levels_ok_def list_all_iff)
qed

lemma perform_levels_ok:
  assumes "levels_ok m" and "level_in_range c"
  shows "levels_ok (perform e c m)"
proof (cases c)
  case (UpgradeEquipment k l n)
  with assms show ?thesis
    by (simp add: upgradeEquipment_def applyEquipmentBonuses_def Let_def levels_ok_set_char
        levels_ok_markUnsaved levels_ok_emit levels_ok_console_out split: option.split)
next
  case (SetCharacterLevel k l)
  with assms show ?thesis
    by (simp add: setCharacterLevel_def levels_ok_set_char levels_ok_markUnsaved
        split: option.split)
next
  case (UpgradeCharacterEquipment k)
  show ?thesis
  proof (cases "get_char m k")
    case None
    with assms UpgradeCharacterEquipment show ?thesis
      by (simp add: upgradeCharacterEquipment_def)
  next
    case (Some ch)
    from levels_ok_get_char [OF assms(1) Some]
    have "or_num (eq_level (equipment ch)) 1 = eq_level (equipment ch)"
      by (simp add: or_num_def)
    with assms(1) Some UpgradeCharacterEquipment levels_ok_get_char [OF assms(1) Some]
    show ?thesis
      by (simp add: upgradeCharacterEquipment_def Let_def levels_ok_set_char
          levels_ok_markUnsaved)
  qed
qed

lemma perform_all_levels_ok:
  "levels_ok m \<Longrightarrow> list_all (\<lambda>(e, c). level_in_range c) cs \<Longrightarrow> levels_ok (perform_all cs m)"
proof (induction cs arbitrary: m)
  case Nil
  then show ?case by simp
next
  case (Cons x cs)
  obtain e c where x: "x = (e, c)" by (cases x)
  with Cons.prems have "levels_ok (perform e c m)"
    by (simp add: perform_levels_ok)
  with Cons x show ?case by simp
qed

lemma level_of_markUnsaved: "level_of (markUnsaved e m) k = level_of m k"
  by (simp add: level_of_def get_char_markUnsaved)

lemma upgradeCharacterEquipment_mono:
  assumes "level_of m k = Some l"
  shows "\<exists>l'. level_of (snd (upgradeCharacterEquipment e j m)) k = Some l' \<and> l \<le> l'"
proof (cases "get_char m j")
  case None
  with assms show ?thesis by (simp add: upgradeCharacterEquipment_def)
next
  case (Some ch)
  show ?thesis
  proof (cases "j = k")
    case True
    with assms Some have l: "l = eq_level (equipment ch)"
      by (simp add: level_of_def)
    have "l \<le> or_num l 1 + 1" by (simp add: or_num_def)
    with Some True l assms show ?thesis
      by (simp add: upgradeCharacterEquipment_def Let_def level_of_markUnsaved)
         (simp add: level_of_def get_char_set_char)
  next
    case False
    with assms Some show ?thesis
      by (auto simp: upgradeCharacterEquipment_def Let_def level_of_def
          get_char_markUnsaved get_char_set_char_other)
  qed
qed

lemma steps_mono:
  "list_all (\<lambda>(e, c). is_step c) cs \<Longrightarrow> level_of m k = Some l
   \<Longrightarrow> \<exists>l'. level_of (perform_all cs m) k = Some l' \<and> l \<le> l'"
proof (induction cs arbitrary: m l)
  case Nil
  then show ?case by simp
next
  case (Cons x cs)
  obtain e c where x: "x = (e, c)" by (cases x)
  with Cons.prems obtain j where c: "c = UpgradeCharacterEquipment j"
    by (cases c) auto
  from upgradeCharacterEquipment_mono [OF Cons.prems(2), of e j]
  obtain l1 where l1: "level_of (perform e c m) k = Some l1" "l \<le> l1"
    using c by auto
  from Cons.prems(1) x have "list_all (\<lambda>(e, c). is_step c) cs" by simp
  from Cons.IH [OF this l1(1)] obtain l' where "level_of (perform_all cs (perform e c m)) k = Some l'" "l1 \<le> l'"
    by blast
  with l1(2) x show ?case by auto
qed

lemma level_stored:
  assumes "get_char m k \<noteq> None"
  shows "level_of (upgradeEquipment e k lv n m) k = Some lv"
    and "level_of (setCharacterLevel e k lv m) k = Some lv"
  using assms
  by (auto simp: upgradeEquipment_def setCharacterLevel_def applyEquipmentBonuses_def Let_def
      level_of_def get_char_console_out get_char_emit get_char_markUnsaved get_char_set_char)

text \<open>
  Claim C4, as amended: equipment levels that are within 1..5 stay within 1..5 under
  every sequence of equipment calls in which each \<^verbatim>\<open>upgradeEquipment\<close> and
  \<^verbatim>\<open>setCharacterLevel\<close> call specifies a level within 1..5; under every sequence of
  \<^verbatim>\<open>upgradeCharacterEquipment\<close> calls no character's level decreases; and
  \<^verbatim>\<open>upgradeEquipment\<close> and \<^verbatim>\<open>setCharacterLevel\<close> on an existing character store the
  level they are given, whatever it is.
\<close>

theorem equipment_levels:
  "(levels_ok m \<and> list_all (\<lambda>(e, c). level_in_range c) cs \<longrightarrow> levels_ok (perform_all cs m))
   \<and> (list_all (\<lambda>(e, c). is_step c) steps \<and> level_of m k = Some l
        \<longrightarrow> (\<exists>l'. level_of (perform_all steps m) k = Some l' \<and> l \<le> l'))
   \<and> (get_char m j \<noteq> None
        \<longrightarrow> level_of (upgradeEquipment e j lv n m) j = Some lv
          \<and> level_of (setCharacterLevel e j lv m) j = Some lv)"
  using perform_all_levels_ok [of m cs] steps_mono [of steps m k l]
    level_stored(1) [of m j e lv n] level_stored(2) [of m j e lv]
  by blast

theorem equipment_levels_witness:
  "levels_ok (constructor env0)
   \<and> list_all (\<lambda>(e, c). level_in_range c) calls0
   \<and> levels_ok (perform_all calls0 (constructor env0))
   \<and> list_all (\<lambda>(e, c). is_step c) steps0
   \<and> level_of (constructor env0) 1 = Some 1
   \<and> (\<exists>l'. level_of (perform_all steps0 (constructor env0)) 1 = Some l' \<and> 1 \<le> l')
   \<and> get_char (constructor env0) 2 \<noteq> None
   \<and> level_of (upgradeEquipment env1 2 4 ''juu soubi'' (constructor env0)) 2 = Some 4
   \<and> level_of (setCharacterLevel env1 2 4 (constructor env0)) 2 = Some 4"
proof -
  have a: "levels_ok (constructor env0)"
    by (simp add: levels_ok_def eval_defs)
  have b: "list_all (\<lambda>(e, c). level_in_range c) calls0"
    by (simp add: calls0_def)
  have c: "list_all (\<lambda>(e, c). is_step c) steps0"
    by (simp add: steps0_def)
  have d: "level_of (constructor env0) 1 = Some 1"
    by (simp add: level_of_def eval_defs)
  have e: "get_char (constructor env0) 2 \<noteq> None"
    by (simp add: eval_defs)
  show ?thesis
    using a b c d e
      equipment_levels [where m = "constructor env0" and cs = calls0 and steps = steps0
        and k = 1 and l = 1 and j = 2 and e = env1 and lv = 4 and n = "''juu soubi''"]
    by blast
qed

text \<open>
  Claim C4 as stated fails: \<^verbatim>\<open>upgradeEquipment(1, 7, ...)\<close> on a fresh manager stores
  level 7, and \<^verbatim>\<open>setCharacterLevel(2, 0)\<close> stores level 0, below the level 1 the
  character had.
\<close>

theorem upgradeEquipment_out_of_range:
  "levels_ok (constructor env0)
   \<and> level_of (upgradeEquipment env1 1 7 ''super'' (constructor env0)) 1 = Some 7
   \<and> \<not> levels_ok (upgradeEquipment env1 1 7 ''super'' (constructor env0))
   \<and> level_of (setCharacterLevel env1 2 0 (constructor env0)) 2 = Some 0"
  by (simp add: levels_ok_def level_of_def upgradeEquipment_def setCharacterLevel_def
      applyEquipmentBonuses_def eval_defs)


section \<open>The dirty flag and the events of each mutation\<close>





























end
